theory Spec2Isabelle
  imports Complex_Main
begin

section \<open>Values, dictionaries and stored documents\<close>

text \<open>
  The handlers of \<^verbatim>\<open>main.py\<close> move Python dictionaries between the HTTP layer and a
  document store. A field value is a JSON scalar or array, a datetime (seconds on the UTC
  clock) or an ObjectId (its bytes). \<open>VFloat\<close> carries the real number a double denotes.
  Nested objects are outside the value model, and a field name is always a top-level name.
\<close>

datatype val =
    VNull
  | VBool bool
  | VInt int
  | VFloat real
  | VStr string
  | VTime int
  | VOid "nat list"
  | VList "val list"

type_synonym dict = "string \<rightharpoonup> val"

text \<open>Python's \<^verbatim>\<open>d.get(k)\<close>: the value, or \<^verbatim>\<open>None\<close> for a missing key.\<close>

definition dict_get :: "dict \<Rightarrow> string \<Rightarrow> val" where
  "dict_get d k = (case d k of None \<Rightarrow> VNull | Some v \<Rightarrow> v)"

text \<open>Python's truth value of an object, as \<^verbatim>\<open>if not url\<close> tests it.\<close>

fun truthy :: "val \<Rightarrow> bool" where
  "truthy VNull = False"
| "truthy (VBool b) = b"
| "truthy (VInt n) = (n \<noteq> 0)"
| "truthy (VFloat x) = (x \<noteq> 0)"
| "truthy (VStr s) = (s \<noteq> [])"
| "truthy (VTime t) = True"
| "truthy (VOid b) = True"
| "truthy (VList xs) = (xs \<noteq> [])"

text \<open>An optional string of the HTTP layer (a query parameter, a header) as a value.\<close>

definition opt_val :: "string option \<Rightarrow> val" where
  "opt_val x = (case x of None \<Rightarrow> VNull | Some t \<Rightarrow> VStr t)"

text \<open>
  A stored document is the ObjectId the store gave it and its other fields; a read hands
  the handler the dictionary with \<^verbatim>\<open>_id\<close> set.
\<close>

datatype document = Document (doc_id: "nat list") (doc_fields: dict)

definition to_dict :: "document \<Rightarrow> dict" where
  "to_dict d = (doc_fields d)(''_id'' \<mapsto> VOid (doc_id d))"

text \<open>
  What a handler raises: an \<^verbatim>\<open>HTTPException\<close> with its status and detail, a pydantic
  validation error, an update the store refuses, \<^verbatim>\<open>bson.errors.InvalidId\<close> from a bare
  \<^verbatim>\<open>ObjectId(..)\<close>, and the \<^verbatim>\<open>TypeError\<close> of subscripting \<^verbatim>\<open>None\<close>. The
  last four reach the client as a 500.
\<close>

datatype error =
    HTTPException nat string
  | ValidationError
  | WriteError
  | InvalidId
  | TypeError

section \<open>ObjectId\<close>

text \<open>
  \<^verbatim>\<open>ObjectId(s)\<close> of a string takes exactly 24 characters and reads them with
  \<^verbatim>\<open>bytes.fromhex\<close>, which skips ASCII white space between bytes and rejects
  everything that is not a pair of hexadecimal digits.
\<close>

definition is_space :: "char \<Rightarrow> bool" where
  "is_space c = ((of_char c :: nat) \<in> {9, 10, 11, 12, 13, 32})"

definition hexval :: "char \<Rightarrow> nat option" where
  "hexval c =
     (let n = (of_char c :: nat) in
      if 48 \<le> n \<and> n \<le> 57 then Some (n - 48)
      else if 97 \<le> n \<and> n \<le> 102 then Some (n - 87)
      else if 65 \<le> n \<and> n \<le> 70 then Some (n - 55)
      else None)"

fun fromhex_from :: "nat option \<Rightarrow> string \<Rightarrow> nat list option" where
  "fromhex_from None [] = Some []"
| "fromhex_from None (c # cs) =
     (if is_space c then fromhex_from None cs
      else (case hexval c of None \<Rightarrow> None | Some a \<Rightarrow> fromhex_from (Some a) cs))"
| "fromhex_from (Some a) [] = None"
| "fromhex_from (Some a) (c # cs) =
     (case hexval c of
        None \<Rightarrow> None
      | Some b \<Rightarrow> map_option ((#) (16 * a + b)) (fromhex_from None cs))"

definition fromhex :: "string \<Rightarrow> nat list option" where
  "fromhex s = fromhex_from None s"

definition ObjectId :: "string \<Rightarrow> nat list option" where
  "ObjectId s = (if length s = 24 then fromhex s else None)"

text \<open>\<^verbatim>\<open>str(ObjectId)\<close>: two lower-case hexadecimal digits for each byte.\<close>

definition hexdigit :: "nat \<Rightarrow> char" where
  "hexdigit n = ''0123456789abcdef'' ! (n mod 16)"

definition str_oid :: "nat list \<Rightarrow> string" where
  "str_oid b = concat (map (\<lambda>x. [hexdigit (x div 16), hexdigit x]) b)"

text \<open>
  \<^verbatim>\<open>str\<close> of a value. The handlers apply it to the \<^verbatim>\<open>_id\<close> of a document they read,
  which is an ObjectId.
\<close>

fun str_val :: "val \<Rightarrow> string" where
  "str_val (VOid b) = str_oid b"
| "str_val (VStr t) = t"
| "str_val v = []"

text \<open>The helper \<^verbatim>\<open>oid\<close> of main.py: any failure of the constructor is a 400.\<close>

definition oid :: "string \<Rightarrow> error + nat list" where
  "oid id_str =
     (case ObjectId id_str of
        None \<Rightarrow> Inl (HTTPException 400 ''Invalid id'')
      | Some b \<Rightarrow> Inr b)"

section \<open>The document store\<close>

text \<open>
  The store is keyed by collection name; each collection keeps its documents in insertion
  order. \<open>fresh\<close> is the supply of new ObjectIds and \<open>accesses\<close> counts the calls that
  reached the store, reads included.
\<close>

record store =
  colls :: "string \<Rightarrow> document list"
  fresh :: nat
  accesses :: nat

definition touch :: "store \<Rightarrow> store" where
  "touch s = s\<lparr>accesses := Suc (accesses s)\<rparr>"

subsection \<open>Filters\<close>

text \<open>
  A filter dictionary is the conjunction of its entries. The entries main.py writes are an
  equality, \<^verbatim>\<open>$gt\<close> against a datetime, \<^verbatim>\<open>$regex\<close> (kept as the predicate
  the pattern denotes) and \<^verbatim>\<open>$or\<close> over one-entry filters. An entry holds of an array
  when it holds of the array or of one of its elements, and equality with null also holds of
  a missing field.
\<close>

datatype cond = Eq val | GtDate int | Regex "string \<Rightarrow> bool"

datatype query = Field string cond | Or "query list"

type_synonym filter = "query list"

fun elems :: "val \<Rightarrow> val list" where
  "elems (VList xs) = VList xs # xs"
| "elems v = [v]"

fun later :: "int \<Rightarrow> val \<Rightarrow> bool" where
  "later t (VTime u) = (t < u)"
| "later t v = False"

fun str_sat :: "(string \<Rightarrow> bool) \<Rightarrow> val \<Rightarrow> bool" where
  "str_sat p (VStr t) = p t"
| "str_sat p v = False"

fun holds :: "cond \<Rightarrow> val option \<Rightarrow> bool" where
  "holds (Eq q) None = (q = VNull)"
| "holds (Eq q) (Some v) = (q \<in> set (elems v))"
| "holds (GtDate t) None = False"
| "holds (GtDate t) (Some v) = list_ex (later t) (elems v)"
| "holds (Regex p) None = False"
| "holds (Regex p) (Some v) = list_ex (str_sat p) (elems v)"

fun matches :: "query \<Rightarrow> dict \<Rightarrow> bool" where
  "matches (Field k c) d = holds c (d k)"
| "matches (Or qs) d = list_ex (\<lambda>q. matches q d) qs"

definition sat :: "filter \<Rightarrow> document \<Rightarrow> bool" where
  "sat f d = list_all (\<lambda>q. matches q (to_dict d)) f"

subsection \<open>Reads\<close>

definition find_one :: "string \<Rightarrow> filter \<Rightarrow> store \<Rightarrow> dict option \<times> store" where
  "find_one c f s = (map_option to_dict (List.find (sat f) (colls s c)), touch s)"

text \<open>
  \<^verbatim>\<open>find(f).sort(key, -1)\<close>. The order in which the store compares two values of the
  key is a parameter: \<open>before a b\<close> when \<open>a\<close> may stand before \<open>b\<close>.
\<close>

fun insert_sorted :: "('a \<Rightarrow> 'a \<Rightarrow> bool) \<Rightarrow> 'a \<Rightarrow> 'a list \<Rightarrow> 'a list" where
  "insert_sorted le x [] = [x]"
| "insert_sorted le x (y # ys) = (if le x y then x # y # ys else y # insert_sorted le x ys)"

definition sort_docs ::
  "(val option \<Rightarrow> val option \<Rightarrow> bool) \<Rightarrow> string \<Rightarrow> document list \<Rightarrow> document list" where
  "sort_docs before key ds =
     foldr (insert_sorted (\<lambda>a b. before (to_dict a key) (to_dict b key))) ds []"

definition find_sort ::
  "string \<Rightarrow> filter \<Rightarrow> string \<Rightarrow> (val option \<Rightarrow> val option \<Rightarrow> bool) \<Rightarrow> store
    \<Rightarrow> document list \<times> store" where
  "find_sort c f key before s = (sort_docs before key (filter (sat f) (colls s c)), touch s)"

definition count_documents :: "string \<Rightarrow> filter \<Rightarrow> store \<Rightarrow> nat \<times> store" where
  "count_documents c f s = (length (filter (sat f) (colls s c)), touch s)"

subsection \<open>Updates\<close>

text \<open>
  The store keeps an integer in at most 64 bits, two's complement. The driver sends no
  other: a request body with an integer outside this range is refused before the store is
  reached, and the payloads considered here hold none.
\<close>

definition int64 :: "int \<Rightarrow> bool" where
  "int64 n = (- (2 ^ 63) \<le> n \<and> n < 2 ^ 63)"

text \<open>
  \<^verbatim>\<open>$inc\<close> creates a missing field and adds to a number. The store refuses it on any
  other value, and on an integer when the sum leaves the 64-bit range. (On a double the store
  adds in floating point; the rounding of that sum is not modelled.) \<^verbatim>\<open>$set\<close>
  overwrites the named fields, and with no field it changes nothing. \<^verbatim>\<open>update_one\<close>
  changes the first document the filter selects and reports how many it matched.
\<close>

record update_doc =
  upd_inc :: "(string \<times> int) list"
  upd_set :: dict

fun inc_val :: "int \<Rightarrow> val option \<Rightarrow> val option" where
  "inc_val n None = Some (VInt n)"
| "inc_val n (Some (VInt m)) = (if int64 (m + n) then Some (VInt (m + n)) else None)"
| "inc_val n (Some (VFloat x)) = Some (VFloat (x + of_int n))"
| "inc_val n (Some v) = None"

fun apply_inc :: "(string \<times> int) list \<Rightarrow> dict \<Rightarrow> dict option" where
  "apply_inc [] d = Some d"
| "apply_inc ((k, n) # r) d =
     (case inc_val n (d k) of None \<Rightarrow> None | Some v \<Rightarrow> apply_inc r (d(k \<mapsto> v)))"

definition apply_update :: "update_doc \<Rightarrow> document \<Rightarrow> document option" where
  "apply_update u d =
     map_option (\<lambda>m. Document (doc_id d) (m ++ upd_set u)) (apply_inc (upd_inc u) (doc_fields d))"

fun update_first ::
  "(document \<Rightarrow> bool) \<Rightarrow> (document \<Rightarrow> document option) \<Rightarrow> document list
    \<Rightarrow> error + nat \<times> document list" where
  "update_first P g [] = Inr (0, [])"
| "update_first P g (d # ds) =
     (if P d then (case g d of None \<Rightarrow> Inl WriteError | Some d' \<Rightarrow> Inr (1, d' # ds))
      else (case update_first P g ds of
              Inl e \<Rightarrow> Inl e
            | Inr (n, ds') \<Rightarrow> Inr (n, d # ds')))"

definition update_one :: "string \<Rightarrow> filter \<Rightarrow> update_doc \<Rightarrow> store \<Rightarrow> (error + nat) \<times> store" where
  "update_one c f u s =
     (case update_first (sat f) (apply_update u) (colls s c) of
        Inl e \<Rightarrow> (Inl e, touch s)
      | Inr (n, ds) \<Rightarrow> (Inr n, touch (s\<lparr>colls := (colls s)(c := ds)\<rparr>)))"

subsection \<open>Deletes\<close>

fun delete_first :: "(document \<Rightarrow> bool) \<Rightarrow> document list \<Rightarrow> nat \<times> document list" where
  "delete_first P [] = (0, [])"
| "delete_first P (d # ds) =
     (if P d then (1, ds) else (case delete_first P ds of (n, ds') \<Rightarrow> (n, d # ds')))"

definition delete_one :: "string \<Rightarrow> filter \<Rightarrow> store \<Rightarrow> nat \<times> store" where
  "delete_one c f s =
     (case delete_first (sat f) (colls s c) of
        (n, ds) \<Rightarrow> (n, touch (s\<lparr>colls := (colls s)(c := ds)\<rparr>)))"

subsection \<open>Inserts\<close>

definition new_oid :: "nat \<Rightarrow> nat list" where
  "new_oid n = map (\<lambda>i. (n div 256 ^ (11 - i)) mod 256) [0..<12]"

text \<open>
  Modelled from the spec: \<^verbatim>\<open>create_document\<close> of database.py, which is not among the
  sources. The spec's Click Recorder "appends the event verbatim; assigns a creation
  timestamp and unique id"; the call returns the new id as a string, as its callers use it.
\<close>

definition create_document :: "string \<Rightarrow> dict \<Rightarrow> int \<Rightarrow> store \<Rightarrow> string \<times> store" where
  "create_document c data now s =
     (let i = new_oid (fresh s);
          d = Document i (data(''created_at'' \<mapsto> VTime now))
      in (str_oid i,
          touch (s\<lparr>colls := (colls s)(c := colls s c @ [d]), fresh := Suc (fresh s)\<rparr>)))"

section \<open>Schemas\<close>

text \<open>
  A pydantic model validates its keyword arguments when it is built and raises on a value
  its field's type excludes; the dictionary it dumps has every declared field.
\<close>

definition Vendor :: "string list" where
  "Vendor = [''amazon'', ''flipkart'', ''meesho'', ''shopify'', ''myntra'', ''ajio'',
             ''alibaba'', ''snapdeal'']"

fun optional_str :: "val \<Rightarrow> bool" where
  "optional_str VNull = True"
| "optional_str (VStr t) = True"
| "optional_str v = False"

fun literal :: "string list \<Rightarrow> val \<Rightarrow> bool" where
  "literal names (VStr t) = (t \<in> set names)"
| "literal names v = False"

text \<open>\<^verbatim>\<open>Click\<close> of schemas.py, its arguments in the order the class declares them.\<close>

definition Click :: "val \<Rightarrow> val \<Rightarrow> val \<Rightarrow> val \<Rightarrow> val \<Rightarrow> val \<Rightarrow> val \<Rightarrow> error + dict" where
  "Click product_id affiliate_id user_id target vendor ip user_agent =
     (if optional_str product_id \<and> optional_str affiliate_id \<and> optional_str user_id
         \<and> literal [''product'', ''vendor_logo''] target
         \<and> (vendor = VNull \<or> literal Vendor vendor)
         \<and> optional_str ip \<and> optional_str user_agent
      then Inr [''product_id'' \<mapsto> product_id, ''affiliate_id'' \<mapsto> affiliate_id,
                ''user_id'' \<mapsto> user_id, ''target'' \<mapsto> target, ''vendor'' \<mapsto> vendor,
                ''ip'' \<mapsto> ip, ''user_agent'' \<mapsto> user_agent]
      else Inl ValidationError)"

section \<open>Click tracking and redirects\<close>

text \<open>
  What a handler reads of the incoming request: the client's host when the connection has
  one, and the user-agent header.
\<close>

record request =
  client_host :: "string option"
  user_agent :: "string option"

datatype response = RedirectResponse (url: val) (status_code: nat)

text \<open>
  The lookup inside \<^verbatim>\<open>redirect_vendor\<close> (the spec's Vendor Link Resolver), on what
  \<^verbatim>\<open>find_one({})\<close> returned: \<^verbatim>\<open>url = None\<close>, then
  \<^verbatim>\<open>if settings and vendor in settings: url = settings.get(vendor)\<close>. A document read
  from the store has its \<^verbatim>\<open>_id\<close> and is never the empty dictionary.
\<close>

definition resolve_vendor_link :: "dict option \<Rightarrow> string \<Rightarrow> val" where
  "resolve_vendor_link settings vendor =
     (case settings of
        None \<Rightarrow> VNull
      | Some d \<Rightarrow> if d vendor \<noteq> None then dict_get d vendor else VNull)"

text \<open>\<^verbatim>\<open>GET /r/{vendor}\<close>. The clock is read once, when the click is stored.\<close>

definition redirect_vendor ::
  "string \<Rightarrow> request \<Rightarrow> string option \<Rightarrow> int \<Rightarrow> store \<Rightarrow> (error + response) \<times> store" where
  "redirect_vendor vendor req user_id now s =
     (let (settings, s1) = find_one ''adminsetting'' [] s;
          url = resolve_vendor_link settings vendor
      in if \<not> truthy url then (Inl (HTTPException 404 ''Link not available yet''), s1)
         else (case Click VNull VNull (opt_val user_id) (VStr ''vendor_logo'') (VStr vendor)
                      (opt_val (client_host req)) (opt_val (user_agent req)) of
                 Inl e \<Rightarrow> (Inl e, s1)
               | Inr click \<Rightarrow>
                   (let (cid, s2) = create_document ''click'' click now s1
                    in (Inr (RedirectResponse url 302), s2))))"

text \<open>
  \<^verbatim>\<open>GET /r/product/{product_id}\<close>. \<open>now\<close> is the clock read for \<^verbatim>\<open>updated_at\<close>,
  \<open>later_now\<close> the one read when the click is stored.
\<close>

definition redirect_product ::
  "string \<Rightarrow> request \<Rightarrow> string option \<Rightarrow> int \<Rightarrow> int \<Rightarrow> store \<Rightarrow> (error + response) \<times> store" where
  "redirect_product product_id req user_id now later_now s =
     (case oid product_id of
        Inl e \<Rightarrow> (Inl e, s)
      | Inr i \<Rightarrow>
          (let (found, s1) = find_one ''product'' [Field ''_id'' (Eq (VOid i))] s in
           case found of
             None \<Rightarrow> (Inl (HTTPException 404 ''Product not found''), s1)
           | Some product \<Rightarrow>
               (let (res, s2) =
                      update_one ''product'' [Field ''_id'' (Eq (dict_get product ''_id''))]
                        \<lparr>upd_inc = [(''clicks'', 1)],
                         upd_set = [''updated_at'' \<mapsto> VTime now]\<rparr> s1 in
                case res of
                  Inl e \<Rightarrow> (Inl e, s2)
                | Inr matched \<Rightarrow>
                    (case Click (VStr (str_val (dict_get product ''_id'')))
                            (dict_get product ''affiliate_id'') (opt_val user_id) (VStr ''product'')
                            VNull (opt_val (client_host req)) (opt_val (user_agent req)) of
                       Inl e \<Rightarrow> (Inl e, s2)
                     | Inr click \<Rightarrow>
                         (let (cid, s3) = create_document ''click'' click later_now s2
                          in (Inr (RedirectResponse (dict_get product ''affiliate_link'') 302),
                              s3))))))"

section \<open>Products\<close>

text \<open>A query parameter that \<^verbatim>\<open>if q:\<close> takes: given, and not the empty string.\<close>

definition given :: "string option \<Rightarrow> bool" where
  "given x = (case x of None \<Rightarrow> False | Some t \<Rightarrow> t \<noteq> [])"

text \<open>The filter \<^verbatim>\<open>list_products\<close> adds under \<^verbatim>\<open>hot_only\<close> (the spec's Deal Filter).\<close>

definition hot_deals_predicate :: "int \<Rightarrow> filter" where
  "hot_deals_predicate now =
     [Field ''hot_deal'' (Eq (VBool True)),
      Or [Field ''hot_deal_expires_at'' (Eq VNull),
          Field ''hot_deal_expires_at'' (GtDate now)]]"

text \<open>\<^verbatim>\<open>it["_id"] = str(it["_id"])\<close> on a document read from the store.\<close>

definition with_str_id :: "document \<Rightarrow> dict" where
  "with_str_id d = (to_dict d)(''_id'' \<mapsto> VStr (str_oid (doc_id d)))"

text \<open>
  \<^verbatim>\<open>GET /products\<close>. \<open>regex p\<close> is the predicate the store's case-insensitive
  \<^verbatim>\<open>$regex\<close> gives the pattern \<open>p\<close>, \<open>before\<close> its descending order on
  \<^verbatim>\<open>updated_at\<close>; both belong to the store and are parameters here.
\<close>

definition list_products ::
  "(string \<Rightarrow> string \<Rightarrow> bool) \<Rightarrow> (val option \<Rightarrow> val option \<Rightarrow> bool)
    \<Rightarrow> string option \<Rightarrow> string option \<Rightarrow> string option \<Rightarrow> bool \<Rightarrow> string option \<Rightarrow> int
    \<Rightarrow> store \<Rightarrow> dict list \<times> store" where
  "list_products regex before q category vendor hot_only affiliate_id now s =
     (let filt =
            (if given q then [Field ''title'' (Regex (regex (the q)))] else [])
          @ (if given category
             then [Field ''category'' (Regex (regex (''^'' @ the category @ ''$'')))] else [])
          @ (if given vendor
             then [Field ''vendor'' (Regex (regex (''^'' @ the vendor @ ''$'')))] else [])
          @ (if given affiliate_id
             then [Field ''affiliate_id'' (Eq (VStr (the affiliate_id)))] else [])
          @ (if hot_only then hot_deals_predicate now else []);
          (items, s1) = find_sort ''product'' filt ''updated_at'' before s
      in (map with_str_id items, s1))"

text \<open>
  \<^verbatim>\<open>ProductIn\<close> of main.py, as FastAPI hands it to \<^verbatim>\<open>create_product\<close>, and
  \<^verbatim>\<open>Product\<close> of schemas.py, which validates it again and adds the counters.
  \<open>http_url\<close> is pydantic's \<^verbatim>\<open>HttpUrl\<close>: the URL it keeps, or nothing for a string
  it rejects.
\<close>

record product_in =
  pi_affiliate_id :: string
  pi_title :: string
  pi_description :: "string option"
  pi_price :: real
  pi_margin :: "real option"
  pi_images :: "string list"
  pi_vendor :: string
  pi_affiliate_link :: string
  pi_category :: "string option"
  pi_tags :: "string list"
  pi_rating :: real
  pi_hot_deal :: bool
  pi_hot_deal_expires_at :: "int option"

definition Product :: "(string \<Rightarrow> string option) \<Rightarrow> product_in \<Rightarrow> error + dict" where
  "Product http_url p =
     (if 0 \<le> pi_price p
         \<and> (case pi_margin p of None \<Rightarrow> True | Some m \<Rightarrow> 0 \<le> m)
         \<and> list_all (\<lambda>u. http_url u \<noteq> None) (pi_images p)
         \<and> pi_vendor p \<in> set Vendor
         \<and> http_url (pi_affiliate_link p) \<noteq> None
         \<and> 0 \<le> pi_rating p \<and> pi_rating p \<le> 5
      then Inr [''affiliate_id'' \<mapsto> VStr (pi_affiliate_id p),
                ''title'' \<mapsto> VStr (pi_title p),
                ''description'' \<mapsto> opt_val (pi_description p),
                ''price'' \<mapsto> VFloat (pi_price p),
                ''margin'' \<mapsto> (case pi_margin p of None \<Rightarrow> VNull | Some m \<Rightarrow> VFloat m),
                ''images'' \<mapsto> VList (map (\<lambda>u. VStr (the (http_url u))) (pi_images p)),
                ''vendor'' \<mapsto> VStr (pi_vendor p),
                ''affiliate_link'' \<mapsto> VStr (the (http_url (pi_affiliate_link p))),
                ''category'' \<mapsto> opt_val (pi_category p),
                ''tags'' \<mapsto> VList (map VStr (pi_tags p)),
                ''rating'' \<mapsto> VFloat (pi_rating p),
                ''hot_deal'' \<mapsto> VBool (pi_hot_deal p),
                ''hot_deal_expires_at'' \<mapsto>
                   (case pi_hot_deal_expires_at p of None \<Rightarrow> VNull | Some t \<Rightarrow> VTime t),
                ''featured'' \<mapsto> VBool False,
                ''clicks'' \<mapsto> VInt 0,
                ''orders'' \<mapsto> VInt 0]
      else Inl ValidationError)"

text \<open>
  The tail of the creating handlers: \<^verbatim>\<open>created = find_one({"_id": ObjectId(id)})\<close>,
  then \<^verbatim>\<open>created["_id"] = str(created["_id"])\<close>.
\<close>

definition read_back :: "string \<Rightarrow> string \<Rightarrow> store \<Rightarrow> (error + dict) \<times> store" where
  "read_back c id_str s =
     (case ObjectId id_str of
        None \<Rightarrow> (Inl InvalidId, s)
      | Some i \<Rightarrow>
          (let (created, s1) = find_one c [Field ''_id'' (Eq (VOid i))] s in
           case created of
             None \<Rightarrow> (Inl TypeError, s1)
           | Some d \<Rightarrow> (Inr (d(''_id'' \<mapsto> VStr (str_val (dict_get d ''_id'')))), s1)))"

text \<open>\<^verbatim>\<open>POST /products\<close>.\<close>

definition create_product ::
  "(string \<Rightarrow> string option) \<Rightarrow> product_in \<Rightarrow> int \<Rightarrow> store \<Rightarrow> (error + dict) \<times> store" where
  "create_product http_url payload now s =
     (case Product http_url payload of
        Inl e \<Rightarrow> (Inl e, s)
      | Inr product \<Rightarrow>
          (let (pid, s1) = create_document ''product'' product now s
           in read_back ''product'' pid s1))"

text \<open>\<^verbatim>\<open>GET /products/{product_id}\<close>.\<close>

definition get_product :: "string \<Rightarrow> store \<Rightarrow> (error + dict) \<times> store" where
  "get_product product_id s =
     (case oid product_id of
        Inl e \<Rightarrow> (Inl e, s)
      | Inr i \<Rightarrow>
          (let (doc, s1) = find_one ''product'' [Field ''_id'' (Eq (VOid i))] s in
           case doc of
             None \<Rightarrow> (Inl (HTTPException 404 ''Product not found''), s1)
           | Some d \<Rightarrow> (Inr (d(''_id'' \<mapsto> VStr (str_val (dict_get d ''_id'')))), s1)))"

text \<open>
  \<^verbatim>\<open>PUT /products/{product_id}\<close>. The body is any JSON object; the handler drops
  \<^verbatim>\<open>_id\<close>, stamps \<^verbatim>\<open>updated_at\<close> and hands every other key to \<^verbatim>\<open>$set\<close>.
\<close>

definition update_product :: "string \<Rightarrow> dict \<Rightarrow> int \<Rightarrow> store \<Rightarrow> (error + dict) \<times> store" where
  "update_product product_id payload now s =
     (let payload' = payload(''_id'' := None, ''updated_at'' \<mapsto> VTime now) in
      case oid product_id of
        Inl e \<Rightarrow> (Inl e, s)
      | Inr i \<Rightarrow>
          (let (res, s1) =
                 update_one ''product'' [Field ''_id'' (Eq (VOid i))]
                   \<lparr>upd_inc = [], upd_set = payload'\<rparr> s in
           case res of
             Inl e \<Rightarrow> (Inl e, s1)
           | Inr matched_count \<Rightarrow>
               if matched_count = 0 then (Inl (HTTPException 404 ''Not found''), s1)
               else get_product product_id s1))"

text \<open>\<^verbatim>\<open>DELETE /products/{product_id}\<close>.\<close>

definition delete_product :: "string \<Rightarrow> store \<Rightarrow> (error + bool) \<times> store" where
  "delete_product product_id s =
     (case oid product_id of
        Inl e \<Rightarrow> (Inl e, s)
      | Inr i \<Rightarrow>
          (let (deleted_count, s1) = delete_one ''product'' [Field ''_id'' (Eq (VOid i))] s in
           if deleted_count = 0 then (Inl (HTTPException 404 ''Not found''), s1)
           else (Inr True, s1)))"

section \<open>Orders\<close>

text \<open>\<^verbatim>\<open>Order\<close> of schemas.py, as \<^verbatim>\<open>create_order\<close> builds it.\<close>

definition Order :: "string \<Rightarrow> string \<Rightarrow> val \<Rightarrow> string \<Rightarrow> val \<Rightarrow> error + dict" where
  "Order user_id product_id affiliate_id status vendor_url =
     (if optional_str affiliate_id
         \<and> status \<in> set [''redirected'', ''placed_on_vendor'', ''cancelled'']
         \<and> optional_str vendor_url
      then Inr [''user_id'' \<mapsto> VStr user_id, ''product_id'' \<mapsto> VStr product_id,
                ''affiliate_id'' \<mapsto> affiliate_id, ''status'' \<mapsto> VStr status,
                ''vendor_url'' \<mapsto> vendor_url]
      else Inl ValidationError)"

text \<open>\<^verbatim>\<open>POST /orders\<close>, on the body's \<^verbatim>\<open>user_id\<close> and \<^verbatim>\<open>product_id\<close>.\<close>

definition create_order ::
  "string \<Rightarrow> string \<Rightarrow> int \<Rightarrow> store \<Rightarrow> (error + dict) \<times> store" where
  "create_order user_id product_id now s =
     (case oid product_id of
        Inl e \<Rightarrow> (Inl e, s)
      | Inr i \<Rightarrow>
          (let (found, s1) = find_one ''product'' [Field ''_id'' (Eq (VOid i))] s in
           case found of
             None \<Rightarrow> (Inl (HTTPException 404 ''Product not found''), s1)
           | Some product \<Rightarrow>
               (case Order user_id product_id (dict_get product ''affiliate_id'')
                       ''redirected'' (dict_get product ''affiliate_link'') of
                  Inl e \<Rightarrow> (Inl e, s1)
                | Inr order \<Rightarrow>
                    (let (oid_str, s2) = create_document ''order'' order now s1;
                         (res, s3) =
                           update_one ''product''
                             [Field ''_id'' (Eq (dict_get product ''_id''))]
                             \<lparr>upd_inc = [(''orders'', 1)], upd_set = Map.empty\<rparr> s2
                     in case res of
                          Inl e \<Rightarrow> (Inl e, s3)
                        | Inr matched \<Rightarrow> read_back ''order'' oid_str s3))))"

text \<open>\<^verbatim>\<open>GET /orders\<close>.\<close>

definition list_orders ::
  "(val option \<Rightarrow> val option \<Rightarrow> bool) \<Rightarrow> string option \<Rightarrow> string option \<Rightarrow> store
    \<Rightarrow> dict list \<times> store" where
  "list_orders before user_id affiliate_id s =
     (let filt =
            (if given user_id then [Field ''user_id'' (Eq (VStr (the user_id)))] else [])
          @ (if given affiliate_id
             then [Field ''affiliate_id'' (Eq (VStr (the affiliate_id)))] else []);
          (items, s1) = find_sort ''order'' filt ''created_at'' before s
      in (map with_str_id items, s1))"

section \<open>Admin settings\<close>

text \<open>
  \<^verbatim>\<open>AdminSetting\<close> of schemas.py: one optional URL for each of the eight vendors. Built
  from \<^verbatim>\<open>**payload\<close>, it ignores every other key.
\<close>

fun optional_url :: "(string \<Rightarrow> string option) \<Rightarrow> val \<Rightarrow> val option" where
  "optional_url http_url VNull = Some VNull"
| "optional_url http_url (VStr u) = map_option VStr (http_url u)"
| "optional_url http_url v = None"

definition AdminSetting :: "(string \<Rightarrow> string option) \<Rightarrow> dict \<Rightarrow> error + dict" where
  "AdminSetting http_url payload =
     (let vals = map (\<lambda>k. optional_url http_url (dict_get payload k)) Vendor in
      if list_all (\<lambda>v. v \<noteq> None) vals then Inr (map_of (zip Vendor (map the vals)))
      else Inl ValidationError)"

text \<open>\<^verbatim>\<open>GET /admin/settings\<close>.\<close>

definition get_admin_settings :: "store \<Rightarrow> dict \<times> store" where
  "get_admin_settings s =
     (let (doc, s1) = find_one ''adminsetting'' [] s in
      case doc of
        None \<Rightarrow> (Map.empty, s1)
      | Some d \<Rightarrow> (d(''_id'' \<mapsto> VStr (str_val (dict_get d ''_id''))), s1))"

text \<open>\<^verbatim>\<open>POST /admin/settings\<close>.\<close>

definition save_admin_settings ::
  "(string \<Rightarrow> string option) \<Rightarrow> dict \<Rightarrow> int \<Rightarrow> store \<Rightarrow> (error + dict) \<times> store" where
  "save_admin_settings http_url payload now s =
     (let payload' = payload(''_id'' := None);
          (existing, s1) = find_one ''adminsetting'' [] s
      in case existing of
           Some d \<Rightarrow>
             (let (res, s2) =
                    update_one ''adminsetting'' [Field ''_id'' (Eq (dict_get d ''_id''))]
                      \<lparr>upd_inc = [], upd_set = payload'\<rparr> s1
              in case res of
                   Inl e \<Rightarrow> (Inl e, s2)
                 | Inr matched \<Rightarrow> (case get_admin_settings s2 of (r, s3) \<Rightarrow> (Inr r, s3)))
         | None \<Rightarrow>
             (case AdminSetting http_url payload' of
                Inl e \<Rightarrow> (Inl e, s1)
              | Inr setting \<Rightarrow>
                  (let (sid, s2) = create_document ''adminsetting'' setting now s1
                   in case get_admin_settings s2 of (r, s3) \<Rightarrow> (Inr r, s3))))"

section \<open>Users and subscriptions\<close>

text \<open>
  \<^verbatim>\<open>hash_password\<close> is SHA-256 in hexadecimal; the handlers take it as the parameter
  \<open>hash_password\<close>.
\<close>

definition Gender :: "string list" where
  "Gender = [''male'', ''female'', ''other'', ''prefer_not_to_say'']"

definition Role :: "string list" where
  "Role = [''buyer'', ''affiliate'', ''admin'']"

text \<open>\<^verbatim>\<open>User\<close> of schemas.py, as \<^verbatim>\<open>signup\<close> builds it.\<close>

definition User ::
  "string \<Rightarrow> string \<Rightarrow> string \<Rightarrow> string \<Rightarrow> string option \<Rightarrow> int option \<Rightarrow> string option
    \<Rightarrow> error + dict" where
  "User name email password_hash role phone age gender =
     (if role \<in> set Role
         \<and> (case age of None \<Rightarrow> True | Some a \<Rightarrow> 0 \<le> a \<and> a \<le> 120)
         \<and> (case gender of None \<Rightarrow> True | Some g \<Rightarrow> g \<in> set Gender)
      then Inr [''name'' \<mapsto> VStr name, ''email'' \<mapsto> VStr email,
                ''password_hash'' \<mapsto> VStr password_hash, ''role'' \<mapsto> VStr role,
                ''phone'' \<mapsto> opt_val phone,
                ''age'' \<mapsto> (case age of None \<Rightarrow> VNull | Some a \<Rightarrow> VInt a),
                ''gender'' \<mapsto> opt_val gender, ''photo_url'' \<mapsto> VNull,
                ''is_active'' \<mapsto> VBool True, ''ad_free'' \<mapsto> VBool False]
      else Inl ValidationError)"

text \<open>
  \<^verbatim>\<open>strip_password\<close> on a dictionary; \<^verbatim>\<open>None\<close> goes through it unchanged, which
  the callers write as \<open>map_option\<close>.
\<close>

definition strip_password :: "dict \<Rightarrow> dict" where
  "strip_password doc =
     (if doc = Map.empty then doc
      else (doc(''password_hash'' := None))
             (''_id'' \<mapsto> (if doc ''_id'' \<noteq> None then VStr (str_val (dict_get doc ''_id''))
                         else VNull)))"

record signup_in =
  su_name :: string
  su_email :: string
  su_password :: string
  su_role :: "string option"
  su_phone :: "string option"
  su_age :: "int option"
  su_gender :: "string option"

text \<open>\<^verbatim>\<open>POST /auth/signup\<close>. The detail of the 400 has an em dash, three bytes in UTF-8.\<close>

definition signup ::
  "(string \<Rightarrow> string) \<Rightarrow> signup_in \<Rightarrow> int \<Rightarrow> store \<Rightarrow> (error + dict option) \<times> store" where
  "signup hash_password payload now s =
     (let (existing, s1) = find_one ''user'' [Field ''email'' (Eq (VStr (su_email payload)))] s in
      if existing \<noteq> None
      then (Inl (HTTPException 400
                   (''Account exists '' @ [char_of (226::nat), char_of (128::nat), char_of (148::nat)]
                    @ '' please login instead.'')), s1)
      else (case User (su_name payload) (su_email payload)
                   (hash_password (su_password payload))
                   (if su_role payload \<in> {Some ''buyer'', Some ''affiliate''}
                    then the (su_role payload) else ''buyer'')
                   (su_phone payload) (su_age payload) (su_gender payload) of
              Inl e \<Rightarrow> (Inl e, s1)
            | Inr user \<Rightarrow>
                (let (uid, s2) = create_document ''user'' user now s1 in
                 case ObjectId uid of
                   None \<Rightarrow> (Inl InvalidId, s2)
                 | Some i \<Rightarrow>
                     (let (created, s3) = find_one ''user'' [Field ''_id'' (Eq (VOid i))] s2
                      in (Inr (map_option strip_password created), s3)))))"

text \<open>\<^verbatim>\<open>POST /auth/login\<close>.\<close>

definition login ::
  "(string \<Rightarrow> string) \<Rightarrow> string \<Rightarrow> string \<Rightarrow> store \<Rightarrow> (error + dict) \<times> store" where
  "login hash_password email password s =
     (let (user, s1) = find_one ''user'' [Field ''email'' (Eq (VStr email))] s in
      case user of
        None \<Rightarrow> (Inl (HTTPException 401 ''Invalid credentials''), s1)
      | Some u \<Rightarrow>
          if dict_get u ''password_hash'' \<noteq> VStr (hash_password password)
          then (Inl (HTTPException 401 ''Invalid credentials''), s1)
          else (Inr (strip_password u), s1))"

text \<open>
  \<^verbatim>\<open>PUT /users/{user_id}\<close>. \<open>to_set\<close> is the dump of the fields the body set, among
  \<^verbatim>\<open>name\<close>, \<^verbatim>\<open>phone\<close>, \<^verbatim>\<open>photo_url\<close> and \<^verbatim>\<open>ad_free\<close>.
\<close>

definition update_user ::
  "string \<Rightarrow> dict \<Rightarrow> int \<Rightarrow> store \<Rightarrow> (error + dict option) \<times> store" where
  "update_user user_id to_set now s =
     (case oid user_id of
        Inl e \<Rightarrow> (Inl e, s)
      | Inr i \<Rightarrow>
          if to_set = Map.empty
          then (let (user, s1) = find_one ''user'' [Field ''_id'' (Eq (VOid i))] s
                in (Inr (map_option strip_password user), s1))
          else (let (res, s1) =
                      update_one ''user'' [Field ''_id'' (Eq (VOid i))]
                        \<lparr>upd_inc = [], upd_set = to_set(''updated_at'' \<mapsto> VTime now)\<rparr> s
                in case res of
                     Inl e \<Rightarrow> (Inl e, s1)
                   | Inr matched_count \<Rightarrow>
                       if matched_count = 0 then (Inl (HTTPException 404 ''User not found''), s1)
                       else (let (user, s2) = find_one ''user'' [Field ''_id'' (Eq (VOid i))] s1
                             in (Inr (map_option strip_password user), s2))))"

text \<open>\<^verbatim>\<open>GET /users\<close>.\<close>

definition list_users ::
  "(string \<Rightarrow> string \<Rightarrow> bool) \<Rightarrow> (val option \<Rightarrow> val option \<Rightarrow> bool)
    \<Rightarrow> string option \<Rightarrow> string option \<Rightarrow> store \<Rightarrow> dict list \<times> store" where
  "list_users regex before role email s =
     (let filt =
            (if given role then [Field ''role'' (Eq (VStr (the role)))] else [])
          @ (if given email then [Field ''email'' (Regex (regex (the email)))] else []);
          (users, s1) = find_sort ''user'' filt ''created_at'' before s
      in (map (\<lambda>u. strip_password (to_dict u)) users, s1))"

text \<open>
  \<^verbatim>\<open>POST /subscriptions\<close>. The subscription runs thirty days from \<open>now\<close>; the result is
  its expiry. The user's id is parsed only after the subscription is stored.
\<close>

definition create_subscription ::
  "string \<Rightarrow> string \<Rightarrow> real \<Rightarrow> int \<Rightarrow> int \<Rightarrow> store \<Rightarrow> (error + int) \<times> store" where
  "create_subscription user_id tx_id amount now later_now s =
     (let expires = now + 30 * 86400;
          sub = [''user_id'' \<mapsto> VStr user_id, ''tx_id'' \<mapsto> VStr tx_id,
                 ''amount'' \<mapsto> VFloat amount, ''starts_at'' \<mapsto> VTime now,
                 ''expires_at'' \<mapsto> VTime expires];
          (sid, s1) = create_document ''subscription'' sub later_now s
      in case oid user_id of
           Inl e \<Rightarrow> (Inl e, s1)
         | Inr i \<Rightarrow>
             (let (res, s2) =
                    update_one ''user'' [Field ''_id'' (Eq (VOid i))]
                      \<lparr>upd_inc = [],
                       upd_set = [''ad_free'' \<mapsto> VBool True, ''updated_at'' \<mapsto> VTime now]\<rparr> s1
              in case res of
                   Inl e \<Rightarrow> (Inl e, s2)
                 | Inr matched \<Rightarrow> (Inr expires, s2)))"

text \<open>\<^verbatim>\<open>GET /subscriptions\<close>.\<close>

definition list_subscriptions ::
  "(val option \<Rightarrow> val option \<Rightarrow> bool) \<Rightarrow> string option \<Rightarrow> store \<Rightarrow> dict list \<times> store" where
  "list_subscriptions before user_id s =
     (let filt = (if given user_id then [Field ''user_id'' (Eq (VStr (the user_id)))] else []);
          (items, s1) = find_sort ''subscription'' filt ''created_at'' before s
      in (map with_str_id items, s1))"

text \<open>
  \<^verbatim>\<open>GET /admin/stats\<close>: the three counts. The earnings are a floating-point sum which
  the store computes in one more call; the call is counted and the sum left out.
\<close>

definition admin_stats :: "int \<Rightarrow> store \<Rightarrow> (nat \<times> nat \<times> nat) \<times> store" where
  "admin_stats now s =
     (let (buyers, s1) = count_documents ''user'' [Field ''role'' (Eq (VStr ''buyer''))] s;
          (affiliates, s2) =
            count_documents ''user'' [Field ''role'' (Eq (VStr ''affiliate''))] s1;
          (subscribers, s3) =
            count_documents ''subscription'' [Field ''expires_at'' (GtDate now)] s2
      in ((buyers, affiliates, subscribers), touch s3))"

text \<open>\<^verbatim>\<open>GET /test\<close> asks the store for its collection names and changes nothing.\<close>

definition test_database :: "store \<Rightarrow> store" where
  "test_database s = touch s"

section \<open>The operations of the system\<close>

text \<open>
  Every route of main.py, with the arguments and the clock readings of one call.
  \<^verbatim>\<open>GET /\<close> and \<^verbatim>\<open>GET /schema\<close> return constants and never reach the store.
\<close>

record library =
  lib_hash_password :: "string \<Rightarrow> string"
  lib_http_url :: "string \<Rightarrow> string option"
  lib_regex :: "string \<Rightarrow> string \<Rightarrow> bool"
  lib_before :: "val option \<Rightarrow> val option \<Rightarrow> bool"

datatype call =
    ReadRoot
  | TestDatabase
  | Signup signup_in int
  | Login string string
  | UpdateUser string dict int
  | ListUsers "string option" "string option"
  | ListProducts "string option" "string option" "string option" bool "string option" int
  | CreateProduct product_in int
  | GetProduct string
  | UpdateProduct string dict int
  | DeleteProduct string
  | RedirectVendor string request "string option" int
  | RedirectProduct string request "string option" int int
  | CreateOrder string string int
  | ListOrders "string option" "string option"
  | CreateSubscription string string real int int
  | ListSubscriptions "string option"
  | GetAdminSettings
  | SaveAdminSettings dict int
  | AdminStats int
  | GetSchema

text \<open>The store after a call, whatever the call returned or raised.\<close>

fun serve :: "library \<Rightarrow> call \<Rightarrow> store \<Rightarrow> store" where
  "serve L ReadRoot s = s"
| "serve L TestDatabase s = test_database s"
| "serve L (Signup payload now) s = snd (signup (lib_hash_password L) payload now s)"
| "serve L (Login email password) s = snd (login (lib_hash_password L) email password s)"
| "serve L (UpdateUser user_id to_set now) s = snd (update_user user_id to_set now s)"
| "serve L (ListUsers role email) s = snd (list_users (lib_regex L) (lib_before L) role email s)"
| "serve L (ListProducts q category vendor hot_only affiliate_id now) s =
     snd (list_products (lib_regex L) (lib_before L) q category vendor hot_only affiliate_id now s)"
| "serve L (CreateProduct payload now) s = snd (create_product (lib_http_url L) payload now s)"
| "serve L (GetProduct product_id) s = snd (get_product product_id s)"
| "serve L (UpdateProduct product_id payload now) s = snd (update_product product_id payload now s)"
| "serve L (DeleteProduct product_id) s = snd (delete_product product_id s)"
| "serve L (RedirectVendor vendor req user_id now) s = snd (redirect_vendor vendor req user_id now s)"
| "serve L (RedirectProduct product_id req user_id now later_now) s =
     snd (redirect_product product_id req user_id now later_now s)"
| "serve L (CreateOrder user_id product_id now) s = snd (create_order user_id product_id now s)"
| "serve L (ListOrders user_id affiliate_id) s = snd (list_orders (lib_before L) user_id affiliate_id s)"
| "serve L (CreateSubscription user_id tx_id amount now later_now) s =
     snd (create_subscription user_id tx_id amount now later_now s)"
| "serve L (ListSubscriptions user_id) s = snd (list_subscriptions (lib_before L) user_id s)"
| "serve L GetAdminSettings s = snd (get_admin_settings s)"
| "serve L (SaveAdminSettings payload now) s = snd (save_admin_settings (lib_http_url L) payload now s)"
| "serve L (AdminStats now) s = snd (admin_stats now s)"
| "serve L GetSchema s = s"

section \<open>Vocabulary of the properties\<close>

text \<open>
  The integer a counter field holds: an unset field counts as 0, as \<^verbatim>\<open>$inc\<close> takes it,
  and a field that holds anything but an integer is no counter.
\<close>

fun counter :: "val option \<Rightarrow> int option" where
  "counter None = Some 0"
| "counter (Some (VInt n)) = Some n"
| "counter (Some v) = None"


text \<open>A value that is no array.\<close>

fun scalar :: "val \<Rightarrow> bool" where
  "scalar (VList xs) = False"
| "scalar v = True"

text \<open>The product redirect called once for each entry of a list of requests, in order.\<close>

fun redirect_product_each ::
  "string \<Rightarrow> (request \<times> string option \<times> int \<times> int) list \<Rightarrow> store \<Rightarrow> store" where
  "redirect_product_each product_id [] s = s"
| "redirect_product_each product_id ((req, user_id, now, later_now) # rest) s =
     redirect_product_each product_id rest
       (snd (redirect_product product_id req user_id now later_now s))"

text \<open>
  The spec's wording of the deal filter, on a stored product: "\<^verbatim>\<open>hot_deal == true\<close> AND
  (\<^verbatim>\<open>hot_deal_expires_at\<close> is null OR \<^verbatim>\<open>hot_deal_expires_at > now\<close>)".
\<close>

definition spec_hot_deal :: "int \<Rightarrow> document \<Rightarrow> bool" where
  "spec_hot_deal now d =
     (dict_get (doc_fields d) ''hot_deal'' = VBool True
      \<and> (dict_get (doc_fields d) ''hot_deal_expires_at'' = VNull
         \<or> (\<exists>t. dict_get (doc_fields d) ''hot_deal_expires_at'' = VTime t \<and> now < t)))"







subsection \<open>Example data\<close>

text \<open>Stand-ins for the store's pattern matching and sort order, and for the hash.\<close>

definition no_match :: "string \<Rightarrow> string \<Rightarrow> bool" where
  "no_match p t = False"

definition any_order :: "val option \<Rightarrow> val option \<Rightarrow> bool" where
  "any_order a b = True"

definition example_library :: library where
  "example_library =
     \<lparr>lib_hash_password = rev, lib_http_url = Some, lib_regex = no_match,
      lib_before = any_order\<rparr>"

definition no_documents :: "string \<Rightarrow> document list" where
  "no_documents c = []"

definition example_request :: request where
  "example_request = \<lparr>client_host = Some ''203.0.113.7'', user_agent = Some ''curl/8.5''\<rparr>"

text \<open>
  Three products for a listing at time 10000: A is a hot deal with no expiry, B a hot deal
  that expired an hour before, C no hot deal.
\<close>

definition product_A :: document where
  "product_A = Document [0, 0, 0, 0, 0, 0, 0, 0, 0, 0, 0, 1]
     [''affiliate_id'' \<mapsto> VStr ''u1'', ''affiliate_link'' \<mapsto> VStr ''https://shop.example/a'',
      ''hot_deal'' \<mapsto> VBool True, ''hot_deal_expires_at'' \<mapsto> VNull,
      ''clicks'' \<mapsto> VInt 5, ''orders'' \<mapsto> VInt 2]"

definition product_B :: document where
  "product_B = Document [0, 0, 0, 0, 0, 0, 0, 0, 0, 0, 0, 2]
     [''affiliate_id'' \<mapsto> VStr ''u1'', ''affiliate_link'' \<mapsto> VStr [],
      ''hot_deal'' \<mapsto> VBool True, ''hot_deal_expires_at'' \<mapsto> VTime 6400,
      ''clicks'' \<mapsto> VInt 0, ''orders'' \<mapsto> VInt 0]"

definition product_C :: document where
  "product_C = Document [0, 0, 0, 0, 0, 0, 0, 0, 0, 0, 0, 3]
     [''affiliate_id'' \<mapsto> VStr ''u2'', ''hot_deal'' \<mapsto> VBool False,
      ''hot_deal_expires_at'' \<mapsto> VNull, ''clicks'' \<mapsto> VInt 1]"

text \<open>
  A settings document as a second save can leave it: a vendor of the schema, one with an
  empty link, and a key that is no vendor of the schema.
\<close>

definition example_settings :: document where
  "example_settings = Document [0, 0, 0, 0, 0, 0, 0, 0, 0, 0, 0, 9]
     [''amazon'' \<mapsto> VStr ''https://amazon.example/?tag=se'', ''flipkart'' \<mapsto> VStr [],
      ''partner'' \<mapsto> VStr ''https://partner.example/'']"

text \<open>
  The same document before the save that added the key \<^verbatim>\<open>partner\<close>, and a stand-in for
  \<^verbatim>\<open>HttpUrl\<close> that keeps every string.
\<close>

definition earlier_settings :: document where
  "earlier_settings = Document [0, 0, 0, 0, 0, 0, 0, 0, 0, 0, 0, 9]
     [''amazon'' \<mapsto> VStr ''https://amazon.example/?tag=se'', ''flipkart'' \<mapsto> VStr []]"

definition keep_url :: "string \<Rightarrow> string option" where
  "keep_url u = Some u"

definition example_store :: store where
  "example_store =
     \<lparr>colls = no_documents(''product'' := [product_A, product_B, product_C],
                             ''adminsetting'' := [example_settings]),
      fresh = 10, accesses = 0\<rparr>"

definition earlier_store :: store where
  "earlier_store =
     \<lparr>colls = no_documents(''product'' := [product_A, product_B, product_C],
                             ''adminsetting'' := [earlier_settings]),
      fresh = 10, accesses = 0\<rparr>"

definition empty_store :: store where
  "empty_store = \<lparr>colls = no_documents, fresh = 0, accesses = 0\<rparr>"

text \<open>
  The example store after one \<^verbatim>\<open>PUT /products/{product_id}\<close> at time 90: one that
  puts a number in A's \<^verbatim>\<open>affiliate_id\<close>, one that puts a string in A's
  \<^verbatim>\<open>clicks\<close>, one that puts there the largest integer the store keeps, one that puts a
  number in the \<^verbatim>\<open>affiliate_id\<close> of B, the product with the empty link, and one that puts
  an array in C's \<^verbatim>\<open>hot_deal\<close>.
\<close>

definition numeric_owner_store :: store where
  "numeric_owner_store =
     serve example_library
       (UpdateProduct ''000000000000000000000001'' [''affiliate_id'' \<mapsto> VInt 7] 90)
       example_store"

definition text_clicks_store :: store where
  "text_clicks_store =
     serve example_library
       (UpdateProduct ''000000000000000000000001'' [''clicks'' \<mapsto> VStr ''5''] 90)
       example_store"

definition full_clicks_store :: store where
  "full_clicks_store =
     serve example_library
       (UpdateProduct ''000000000000000000000001'' [''clicks'' \<mapsto> VInt (2 ^ 63 - 1)] 90)
       example_store"

definition unlinked_owner_store :: store where
  "unlinked_owner_store =
     serve example_library
       (UpdateProduct ''000000000000000000000002'' [''affiliate_id'' \<mapsto> VInt 7] 90)
       example_store"

definition array_flag_store :: store where
  "array_flag_store =
     serve example_library
       (UpdateProduct ''000000000000000000000003''
          [''hot_deal'' \<mapsto> VList [VBool False, VBool True]] 90)
       example_store"

section \<open>Properties\<close>

subsection \<open>Filters and the first matching document\<close>

lemma sat_empty: "sat [] d"
  by (simp add: sat_def)

lemma sat_id: "sat [Field ''_id'' (Eq (VOid i))] d = (doc_id d = i)"
  by (auto simp: sat_def to_dict_def)

lemma dict_get_id: "dict_get (to_dict d) ''_id'' = VOid (doc_id d)"
  by (simp add: dict_get_def to_dict_def)

lemma dict_get_other: "k \<noteq> ''_id'' \<Longrightarrow> dict_get (to_dict d) k = dict_get (doc_fields d) k"
  by (simp add: dict_get_def to_dict_def)

lemma find_split:
  "\<forall>x\<in>set pre. \<not> P x \<Longrightarrow> P d \<Longrightarrow> List.find P (pre @ d # post) = Some d"
  by (induction pre) auto

lemma update_first_split:
  "\<forall>x\<in>set pre. \<not> P x \<Longrightarrow> P d \<Longrightarrow>
   update_first P g (pre @ d # post)
   = (case g d of None \<Rightarrow> Inl WriteError | Some d' \<Rightarrow> Inr (1, pre @ d' # post))"
  by (induction pre) (auto split: option.splits)

lemma optional_str_opt_val: "optional_str (opt_val x)"
  by (cases x) (simp_all add: opt_val_def)

lemma find_one_all:
  "find_one c [] s = (case colls s c of [] \<Rightarrow> None | d # ds \<Rightarrow> Some (to_dict d), touch s)"
  by (simp add: find_one_def sat_empty split: list.splits)

lemma vendor_not_id: "vendor \<in> set Vendor \<Longrightarrow> vendor \<noteq> ''_id''"
  by (auto simp: Vendor_def)

lemma oid_1: "ObjectId ''000000000000000000000001'' = Some [0, 0, 0, 0, 0, 0, 0, 0, 0, 0, 0, 1]"
  by (simp add: ObjectId_def fromhex_def hexval_def is_space_def)

lemma new_oid_10: "new_oid 10 = [0, 0, 0, 0, 0, 0, 0, 0, 0, 0, 0, 10]"
proof -
  have "[0..<12] = [0, 1, 2, 3, 4, 5, 6, 7, 8, 9, 10, 11::nat]"
    by (simp add: upt_rec)
  then show ?thesis by (simp add: new_oid_def)
qed

lemma oid_2: "ObjectId ''000000000000000000000002'' = Some [0, 0, 0, 0, 0, 0, 0, 0, 0, 0, 0, 2]"
  by (simp add: ObjectId_def fromhex_def hexval_def is_space_def)

lemma oid_3: "ObjectId ''000000000000000000000003'' = Some [0, 0, 0, 0, 0, 0, 0, 0, 0, 0, 0, 3]"
  by (simp add: ObjectId_def fromhex_def hexval_def is_space_def)

subsection \<open>The product redirect\<close>

lemma counter_inc:
  "counter v = Some n \<Longrightarrow> int64 (n + 1) \<Longrightarrow> inc_val 1 v = Some (VInt (n + 1))"
  by (cases v rule: counter.cases) auto

lemma apply_update_clicks:
  "counter (doc_fields d ''clicks'') = Some n \<Longrightarrow> int64 (n + 1) \<Longrightarrow>
   apply_update \<lparr>upd_inc = [(''clicks'', 1)], upd_set = [''updated_at'' \<mapsto> VTime now]\<rparr> d
   = Some (Document (doc_id d)
        ((doc_fields d)(''clicks'' \<mapsto> VInt (n + 1), ''updated_at'' \<mapsto> VTime now)))"
  by (simp add: apply_update_def counter_inc)

lemma redirect_product_found:
  assumes "ObjectId product_id = Some i"
    and "colls s ''product'' = pre @ d # post"
    and "doc_id d = i" and "\<forall>x\<in>set pre. doc_id x \<noteq> i"
    and "counter (doc_fields d ''clicks'') = Some n" and "int64 (n + 1)"
    and "optional_str (dict_get (doc_fields d) ''affiliate_id'')"
  shows "redirect_product product_id req user_id now later_now s =
     (Inr (RedirectResponse (dict_get (doc_fields d) ''affiliate_link'') 302),
      s\<lparr>colls := (colls s)
           (''product'' := pre @ Document i ((doc_fields d)
                (''clicks'' \<mapsto> VInt (n + 1), ''updated_at'' \<mapsto> VTime now)) # post,
            ''click'' := colls s ''click'' @
              [Document (new_oid (fresh s))
                 [''product_id'' \<mapsto> VStr (str_oid i),
                  ''affiliate_id'' \<mapsto> dict_get (doc_fields d) ''affiliate_id'',
                  ''user_id'' \<mapsto> opt_val user_id, ''target'' \<mapsto> VStr ''product'',
                  ''vendor'' \<mapsto> VNull, ''ip'' \<mapsto> opt_val (client_host req),
                  ''user_agent'' \<mapsto> opt_val (user_agent req),
                  ''created_at'' \<mapsto> VTime later_now]]),
         fresh := Suc (fresh s), accesses := accesses s + 3\<rparr>)"
proof -
  have f: "List.find (sat [Field ''_id'' (Eq (VOid i))]) (colls s ''product'') = Some d"
    using assms(2-4) by (simp add: find_split sat_id)
  have u: "update_first (sat [Field ''_id'' (Eq (VOid i))])
             (apply_update \<lparr>upd_inc = [(''clicks'', 1)], upd_set = [''updated_at'' \<mapsto> VTime now]\<rparr>)
             (colls s ''product'')
           = Inr (1, pre @ Document i ((doc_fields d)
                (''clicks'' \<mapsto> VInt (n + 1), ''updated_at'' \<mapsto> VTime now)) # post)"
    using assms(2-6) by (simp add: update_first_split sat_id apply_update_clicks)
  show ?thesis
    using assms(1,3,7) f u
    by (simp add: redirect_product_def oid_def find_one_def update_one_def touch_def
        dict_get_id dict_get_other Click_def create_document_def optional_str_opt_val Let_def)
qed

text \<open>
  What the redirect answers for a stored product, whatever its fields hold: the increment is
  refused, or the click record is, or the stored link is the destination.
\<close>

lemma redirect_product_outcome:
  assumes "ObjectId product_id = Some i"
    and "colls s ''product'' = pre @ d # post"
    and "doc_id d = i" and "\<forall>x\<in>set pre. doc_id x \<noteq> i"
  shows "fst (redirect_product product_id req user_id now later_now s)
         = (case inc_val 1 (doc_fields d ''clicks'') of
              None \<Rightarrow> Inl WriteError
            | Some v \<Rightarrow>
                if optional_str (dict_get (doc_fields d) ''affiliate_id'')
                then Inr (RedirectResponse (dict_get (doc_fields d) ''affiliate_link'') 302)
                else Inl ValidationError)"
proof -
  let ?u = "\<lparr>upd_inc = [(''clicks'', 1)], upd_set = [''updated_at'' \<mapsto> VTime now]\<rparr>"
  have f: "List.find (sat [Field ''_id'' (Eq (VOid i))]) (colls s ''product'') = Some d"
    using assms(2-4) by (simp add: find_split sat_id)
  have u: "update_first (sat [Field ''_id'' (Eq (VOid i))]) (apply_update ?u) (colls s ''product'')
           = (case apply_update ?u d of
                None \<Rightarrow> Inl WriteError
              | Some d' \<Rightarrow> Inr (1, pre @ d' # post))"
    using assms(2-4) by (simp add: update_first_split sat_id)
  show ?thesis
  proof (cases "inc_val 1 (doc_fields d ''clicks'')")
    case None
    then have "apply_update ?u d = None"
      by (simp add: apply_update_def)
    then show ?thesis
      using assms(1,3) f u None
      by (simp add: redirect_product_def oid_def find_one_def update_one_def touch_def
          dict_get_id Let_def)
  next
    case (Some v)
    then have "apply_update ?u d
               = Some (Document (doc_id d)
                   ((doc_fields d)(''clicks'' \<mapsto> v, ''updated_at'' \<mapsto> VTime now)))"
      by (simp add: apply_update_def)
    then show ?thesis
      using assms(1,3) f u Some
      by (simp add: redirect_product_def oid_def find_one_def update_one_def touch_def
          dict_get_id dict_get_other Click_def create_document_def optional_str_opt_val Let_def)
  qed
qed

text \<open>
  C4. A product id that \<^verbatim>\<open>ObjectId\<close> rejects makes the product redirect fail with
  400 "Invalid id", and the store it leaves is the store it found: nothing was read (the
  count of accesses is the same), no counter moved and no click was recorded.
\<close>

theorem redirect_product_invalid_id:
  "ObjectId product_id = None \<Longrightarrow>
   redirect_product product_id req user_id now later_now s
   = (Inl (HTTPException 400 ''Invalid id''), s)"
  by (simp add: redirect_product_def oid_def)

theorem redirect_product_invalid_id_witness:
  "ObjectId ''not-an-object-id'' = None \<and>
   redirect_product ''not-an-object-id'' example_request None 100 101 example_store
   = (Inl (HTTPException 400 ''Invalid id''), example_store)"
proof -
  have h: "ObjectId ''not-an-object-id'' = None"
    by (simp add: ObjectId_def)
  show ?thesis
    using h redirect_product_invalid_id [OF h, of example_request None 100 101 example_store]
    by simp
qed

text \<open>
  C1, as the code has it. Take a product id that \<^verbatim>\<open>ObjectId\<close> accepts and the first
  document of the product collection that has it, where \<^verbatim>\<open>clicks\<close> holds an integer
  \<open>n\<close> (or is unset, \<open>n = 0\<close>) with \<open>n + 1\<close> still in the store's 64-bit range, and
  \<^verbatim>\<open>affiliate_id\<close> holds a string or null. The redirect then answers 302 with the stored
  link, puts \<^verbatim>\<open>clicks\<close> up by exactly one on that document, and appends exactly one
  click record: target "product", the product's id and \<^verbatim>\<open>affiliate_id\<close>, the caller's
  \<^verbatim>\<open>user_id\<close>, ip and user-agent. Nothing else in the store changes.
\<close>

theorem redirect_product_records_click:
  assumes "ObjectId product_id = Some i"
    and "colls s ''product'' = pre @ d # post"
    and "doc_id d = i" and "\<forall>x\<in>set pre. doc_id x \<noteq> i"
    and "counter (doc_fields d ''clicks'') = Some n" and "int64 (n + 1)"
    and "optional_str (dict_get (doc_fields d) ''affiliate_id'')"
  shows "redirect_product product_id req user_id now later_now s =
     (Inr (RedirectResponse (dict_get (doc_fields d) ''affiliate_link'') 302),
      s\<lparr>colls := (colls s)
           (''product'' := pre @ Document i ((doc_fields d)
                (''clicks'' \<mapsto> VInt (n + 1), ''updated_at'' \<mapsto> VTime now)) # post,
            ''click'' := colls s ''click'' @
              [Document (new_oid (fresh s))
                 [''product_id'' \<mapsto> VStr (str_oid i),
                  ''affiliate_id'' \<mapsto> dict_get (doc_fields d) ''affiliate_id'',
                  ''user_id'' \<mapsto> opt_val user_id, ''target'' \<mapsto> VStr ''product'',
                  ''vendor'' \<mapsto> VNull, ''ip'' \<mapsto> opt_val (client_host req),
                  ''user_agent'' \<mapsto> opt_val (user_agent req),
                  ''created_at'' \<mapsto> VTime later_now]]),
         fresh := Suc (fresh s), accesses := accesses s + 3\<rparr>)"
  using assms by (rule redirect_product_found)

theorem redirect_product_records_click_witness:
  "redirect_product ''000000000000000000000001'' example_request (Some ''u42'') 100 101
     example_store
   = (Inr (RedirectResponse (VStr ''https://shop.example/a'') 302),
      example_store\<lparr>colls := (colls example_store)
         (''product'' :=
            [Document [0, 0, 0, 0, 0, 0, 0, 0, 0, 0, 0, 1]
               ((doc_fields product_A)(''clicks'' \<mapsto> VInt 6, ''updated_at'' \<mapsto> VTime 100)),
             product_B, product_C],
          ''click'' :=
            [Document [0, 0, 0, 0, 0, 0, 0, 0, 0, 0, 0, 10]
               [''product_id'' \<mapsto> VStr ''000000000000000000000001'',
                ''affiliate_id'' \<mapsto> VStr ''u1'', ''user_id'' \<mapsto> VStr ''u42'',
                ''target'' \<mapsto> VStr ''product'', ''vendor'' \<mapsto> VNull,
                ''ip'' \<mapsto> VStr ''203.0.113.7'', ''user_agent'' \<mapsto> VStr ''curl/8.5'',
                ''created_at'' \<mapsto> VTime 101]]),
        fresh := 11, accesses := 3\<rparr>)"
  using redirect_product_records_click [of "''000000000000000000000001''"
      "[0, 0, 0, 0, 0, 0, 0, 0, 0, 0, 0, 1]" example_store "[]" product_A
      "[product_B, product_C]" 5 example_request "Some ''u42''" 100 101]
  by (simp add: oid_1 new_oid_10 str_oid_def hexdigit_def example_store_def product_A_def
      no_documents_def dict_get_def opt_val_def example_request_def int64_def)

text \<open>
  C1 as stated fails for a stored product whose fields are not of these types, and
  \<^verbatim>\<open>update_product\<close> stores any value under any key. With a number in
  \<^verbatim>\<open>affiliate_id\<close> the redirect puts \<^verbatim>\<open>clicks\<close> up from 5 to 6 and then fails to
  build the click record: no record is stored and no 302 is answered. With a string in
  \<^verbatim>\<open>clicks\<close> the store refuses the increment, and the call ends there.
\<close>

theorem redirect_product_records_click_counterexample:
  "map (\<lambda>d. doc_fields d ''affiliate_id'') (colls numeric_owner_store ''product'')
     = [Some (VInt 7), Some (VStr ''u1''), Some (VStr ''u2'')]
   \<and> map (\<lambda>d. doc_fields d ''clicks'') (colls numeric_owner_store ''product'')
     = [Some (VInt 5), Some (VInt 0), Some (VInt 1)]
   \<and> fst (redirect_product ''000000000000000000000001'' example_request None 100 101
            numeric_owner_store) = Inl ValidationError
   \<and> colls (snd (redirect_product ''000000000000000000000001'' example_request None 100 101
                   numeric_owner_store)) ''click'' = []
   \<and> map (\<lambda>d. doc_fields d ''clicks'')
       (colls (snd (redirect_product ''000000000000000000000001'' example_request None 100 101
                      numeric_owner_store)) ''product'')
     = [Some (VInt 6), Some (VInt 0), Some (VInt 1)]
   \<and> map (\<lambda>d. doc_fields d ''clicks'') (colls text_clicks_store ''product'')
     = [Some (VStr ''5''), Some (VInt 0), Some (VInt 1)]
   \<and> redirect_product ''000000000000000000000001'' example_request None 100 101
       text_clicks_store
     = (Inl WriteError, text_clicks_store\<lparr>accesses := accesses text_clicks_store + 2\<rparr>)"
  by (simp add: numeric_owner_store_def text_clicks_store_def
      redirect_product_def Click_def create_document_def
      update_product_def get_product_def oid_def oid_1 update_one_def apply_update_def
      sat_id find_one_def Let_def dict_get_def to_dict_def int64_def
      example_store_def product_A_def product_B_def product_C_def no_documents_def touch_def)

text \<open>
  The increment comes before the click record is built, so the product collection after
  one call does not depend on whether the record was accepted.
\<close>

lemma redirect_product_step:
  assumes "ObjectId product_id = Some i"
    and "colls s ''product'' = pre @ d # post"
    and "doc_id d = i" and "\<forall>x\<in>set pre. doc_id x \<noteq> i"
    and "counter (doc_fields d ''clicks'') = Some n" and "int64 (n + 1)"
  shows "colls (snd (redirect_product product_id req user_id now later_now s)) ''product''
         = pre @ Document i ((doc_fields d)
                (''clicks'' \<mapsto> VInt (n + 1), ''updated_at'' \<mapsto> VTime now)) # post"
proof -
  have f: "List.find (sat [Field ''_id'' (Eq (VOid i))]) (colls s ''product'') = Some d"
    using assms(2-4) by (simp add: find_split sat_id)
  have u: "update_first (sat [Field ''_id'' (Eq (VOid i))])
             (apply_update \<lparr>upd_inc = [(''clicks'', 1)], upd_set = [''updated_at'' \<mapsto> VTime now]\<rparr>)
             (colls s ''product'')
           = Inr (1, pre @ Document i ((doc_fields d)
                (''clicks'' \<mapsto> VInt (n + 1), ''updated_at'' \<mapsto> VTime now)) # post)"
    using assms(2-6) by (simp add: update_first_split sat_id apply_update_clicks)
  show ?thesis
    using assms(1,3) f u
    by (simp add: redirect_product_def oid_def find_one_def update_one_def touch_def
        dict_get_id create_document_def Let_def split: sum.split)
qed

text \<open>
  C6, as the code has it. Take a product id that \<^verbatim>\<open>ObjectId\<close> accepts and the first
  stored document that has it, its \<^verbatim>\<open>clicks\<close> a 64-bit integer \<open>n\<close> (or unset,
  \<open>n = 0\<close>), and a list of \<open>N\<close> requests with \<open>n + N\<close> still in the 64-bit range. After
  the redirect has been called for each request, one after the other, the document is in its
  place with \<^verbatim>\<open>clicks = n + N\<close>: one increment for each call, none lost.
\<close>

theorem redirect_product_n_times:
  assumes "ObjectId product_id = Some i"
    and "colls s ''product'' = pre @ d # post"
    and "doc_id d = i" and "\<forall>x\<in>set pre. doc_id x \<noteq> i"
    and "counter (doc_fields d ''clicks'') = Some n"
    and "int64 n" and "int64 (n + int (length calls))"
  shows "\<exists>d'. colls (redirect_product_each product_id calls s) ''product'' = pre @ d' # post
            \<and> doc_id d' = i
            \<and> counter (doc_fields d' ''clicks'') = Some (n + int (length calls))"
  using assms(2,3,5,6,7)
proof (induction calls arbitrary: s d n)
  case Nil
  then show ?case by simp
next
  case (Cons c calls)
  obtain req user_id now later_now where c: "c = (req, user_id, now, later_now)"
    by (cases c) auto
  let ?s = "snd (redirect_product product_id req user_id now later_now s)"
  let ?d = "Document i ((doc_fields d)(''clicks'' \<mapsto> VInt (n + 1), ''updated_at'' \<mapsto> VTime now))"
  have n1: "int64 (n + 1)"
    using Cons.prems(4,5) by (simp add: int64_def)
  have nN: "int64 (n + 1 + int (length calls))"
    using Cons.prems(5) by (simp add: add.assoc)
  have step: "colls ?s ''product'' = pre @ ?d # post"
    using assms(1) Cons.prems(1,2) assms(4) Cons.prems(3) n1 by (rule redirect_product_step)
  have "\<exists>d'. colls (redirect_product_each product_id calls ?s) ''product'' = pre @ d' # post
            \<and> doc_id d' = i
            \<and> counter (doc_fields d' ''clicks'') = Some (n + 1 + int (length calls))"
    using n1 nN by (intro Cons.IH [OF step]) simp_all
  moreover have "n + 1 + int (length calls) = n + int (length (c # calls))" by simp
  ultimately show ?case by (simp only: c redirect_product_each.simps)
qed

theorem redirect_product_n_times_witness:
  "\<exists>d'. colls (redirect_product_each ''000000000000000000000001''
             [(example_request, None, 100, 101), (example_request, Some ''u42'', 102, 103),
              (example_request, None, 104, 105)] example_store) ''product''
           = d' # [product_B, product_C]
         \<and> doc_id d' = [0, 0, 0, 0, 0, 0, 0, 0, 0, 0, 0, 1]
         \<and> counter (doc_fields d' ''clicks'') = Some 8"
  using redirect_product_n_times [of "''000000000000000000000001''"
      "[0, 0, 0, 0, 0, 0, 0, 0, 0, 0, 0, 1]" example_store "[]" product_A
      "[product_B, product_C]" 5
      "[(example_request, None, 100, 101), (example_request, Some ''u42'', 102, 103),
        (example_request, None, 104, 105)]"]
  by (simp add: oid_1 example_store_def product_A_def no_documents_def int64_def)

text \<open>
  C6 as stated fails where \<^verbatim>\<open>update_product\<close> has left in \<^verbatim>\<open>clicks\<close> a value the
  store cannot increment. With the string "5" there, each of three redirects is refused and
  \<^verbatim>\<open>clicks\<close> is still the string; with the largest 64-bit integer there, a redirect is
  refused and \<^verbatim>\<open>clicks\<close> stays as it is.
\<close>

theorem redirect_product_n_times_counterexample:
  "map (\<lambda>d. doc_fields d ''clicks'') (colls text_clicks_store ''product'')
     = [Some (VStr ''5''), Some (VInt 0), Some (VInt 1)]
   \<and> fst (redirect_product ''000000000000000000000001'' example_request None 100 101
            text_clicks_store) = Inl WriteError
   \<and> map (\<lambda>d. doc_fields d ''clicks'')
       (colls (redirect_product_each ''000000000000000000000001''
                 [(example_request, None, 100, 101), (example_request, Some ''u42'', 102, 103),
                  (example_request, None, 104, 105)] text_clicks_store) ''product'')
     = [Some (VStr ''5''), Some (VInt 0), Some (VInt 1)]
   \<and> map (\<lambda>d. doc_fields d ''clicks'') (colls full_clicks_store ''product'')
     = [Some (VInt 9223372036854775807), Some (VInt 0), Some (VInt 1)]
   \<and> fst (redirect_product ''000000000000000000000001'' example_request None 100 101
            full_clicks_store) = Inl WriteError
   \<and> map (\<lambda>d. doc_fields d ''clicks'')
       (colls (redirect_product_each ''000000000000000000000001''
                 [(example_request, None, 100, 101)] full_clicks_store) ''product'')
     = [Some (VInt 9223372036854775807), Some (VInt 0), Some (VInt 1)]"
  by (simp add: text_clicks_store_def full_clicks_store_def
      redirect_product_def
      update_product_def get_product_def oid_def oid_1 update_one_def apply_update_def
      sat_id find_one_def Let_def dict_get_def to_dict_def int64_def
      example_store_def product_A_def product_B_def product_C_def no_documents_def touch_def)

text \<open>
  C8, as the code has it. Take a stored product whose \<^verbatim>\<open>affiliate_link\<close> is missing,
  null or the empty string. When its \<^verbatim>\<open>clicks\<close> holds an integer \<open>n\<close> (or is unset)
  with \<open>n + 1\<close> in the 64-bit range and its \<^verbatim>\<open>affiliate_id\<close> a string or null, the
  redirect answers 302 with that very value as its destination (Python's \<^verbatim>\<open>None\<close> for a
  missing key). Whatever the two fields hold, the call has one of three outcomes: that
  answer, the store's refusal of the increment, or the refusal of the click record; no
  default destination takes the place of the missing link.
\<close>

theorem redirect_product_no_link:
  assumes "ObjectId product_id = Some i"
    and "colls s ''product'' = pre @ d # post"
    and "doc_id d = i" and "\<forall>x\<in>set pre. doc_id x \<noteq> i"
    and "doc_fields d ''affiliate_link'' = None \<or> doc_fields d ''affiliate_link'' = Some VNull
         \<or> doc_fields d ''affiliate_link'' = Some (VStr [])"
  shows "(counter (doc_fields d ''clicks'') = Some n \<and> int64 (n + 1)
            \<and> optional_str (dict_get (doc_fields d) ''affiliate_id'')
          \<longrightarrow> fst (redirect_product product_id req user_id now later_now s)
              = Inr (RedirectResponse
                       (case doc_fields d ''affiliate_link'' of None \<Rightarrow> VNull | Some v \<Rightarrow> v)
                       302))
       \<and> fst (redirect_product product_id req user_id now later_now s)
           \<in> {Inr (RedirectResponse
                      (case doc_fields d ''affiliate_link'' of None \<Rightarrow> VNull | Some v \<Rightarrow> v)
                      302),
              Inl WriteError, Inl ValidationError}"
proof -
  have "fst (redirect_product product_id req user_id now later_now s)
        = (case inc_val 1 (doc_fields d ''clicks'') of
             None \<Rightarrow> Inl WriteError
           | Some v \<Rightarrow>
               if optional_str (dict_get (doc_fields d) ''affiliate_id'')
               then Inr (RedirectResponse (dict_get (doc_fields d) ''affiliate_link'') 302)
               else Inl ValidationError)"
    using assms(1-4) by (rule redirect_product_outcome)
  then show ?thesis
    by (auto simp: dict_get_def counter_inc split: option.splits)
qed

theorem redirect_product_no_link_witness:
  "fst (redirect_product ''000000000000000000000002'' example_request None 100 101 example_store)
   = Inr (RedirectResponse (VStr []) 302)"
  using redirect_product_no_link [of "''000000000000000000000002''"
      "[0, 0, 0, 0, 0, 0, 0, 0, 0, 0, 0, 2]" example_store "[product_A]" product_B
      "[product_C]" 0 example_request None 100 101]
  by (simp add: oid_2 example_store_def product_A_def product_B_def no_documents_def dict_get_def
      int64_def)

text \<open>
  C8 as stated fails for a stored product that \<^verbatim>\<open>update_product\<close> has given a number
  for its \<^verbatim>\<open>affiliate_id\<close>: product B, whose link is the empty string, gets no
  destination at all, the click record being refused.
\<close>

theorem redirect_product_no_link_counterexample:
  "map (\<lambda>d. doc_fields d ''affiliate_link'') (colls unlinked_owner_store ''product'')
     = [Some (VStr ''https://shop.example/a''), Some (VStr []), None]
   \<and> map (\<lambda>d. doc_fields d ''affiliate_id'') (colls unlinked_owner_store ''product'')
     = [Some (VStr ''u1''), Some (VInt 7), Some (VStr ''u2'')]
   \<and> fst (redirect_product ''000000000000000000000002'' example_request None 100 101
            unlinked_owner_store) = Inl ValidationError"
  by (simp add: unlinked_owner_store_def
      redirect_product_def Click_def
      update_product_def get_product_def oid_def oid_1 oid_2 update_one_def apply_update_def
      sat_id find_one_def Let_def dict_get_def to_dict_def int64_def
      example_store_def product_A_def product_B_def product_C_def no_documents_def touch_def)

subsection \<open>The vendor redirect\<close>

text \<open>
  C3. When the settings collection is empty, or its first document has no field of the
  vendor's name, or holds there a value Python takes for false (null, the empty string, 0),
  the vendor redirect fails with 404 "Link not available yet". The store it leaves differs
  from the one it found in the count of accesses only: no click record, no other change.
\<close>

theorem redirect_vendor_not_available:
  assumes "colls s ''adminsetting'' = []
           \<or> (\<exists>d ds. colls s ''adminsetting'' = d # ds
                \<and> (to_dict d vendor = None \<or> (\<exists>v. to_dict d vendor = Some v \<and> \<not> truthy v)))"
  shows "redirect_vendor vendor req user_id now s
         = (Inl (HTTPException 404 ''Link not available yet''),
            s\<lparr>accesses := Suc (accesses s)\<rparr>)"
  using assms
  by (auto simp: redirect_vendor_def find_one_all resolve_vendor_link_def dict_get_def touch_def)

theorem redirect_vendor_not_available_witness:
  "redirect_vendor ''flipkart'' example_request None 100 example_store
     = (Inl (HTTPException 404 ''Link not available yet''), example_store\<lparr>accesses := 1\<rparr>)
   \<and> redirect_vendor ''myntra'' example_request None 100 example_store
     = (Inl (HTTPException 404 ''Link not available yet''), example_store\<lparr>accesses := 1\<rparr>)
   \<and> redirect_vendor ''amazon'' example_request None 100 empty_store
     = (Inl (HTTPException 404 ''Link not available yet''), empty_store\<lparr>accesses := 1\<rparr>)"
  using redirect_vendor_not_available [of example_store "''flipkart''" example_request None 100]
    redirect_vendor_not_available [of example_store "''myntra''" example_request None 100]
    redirect_vendor_not_available [of empty_store "''amazon''" example_request None 100]
  by (simp add: example_store_def empty_store_def example_settings_def no_documents_def
      to_dict_def)

text \<open>
  C10. Whenever a settings document exists, the vendor name \<^verbatim>\<open>_id\<close> passes the lookup:
  the key is in the dictionary, its value is the document's ObjectId, which Python takes for
  true, so the handler does not fail with the 404. (It goes on to build the click record,
  where the schema's vendor type rejects the name.)
\<close>

theorem redirect_vendor_reserved_key:
  assumes "colls s ''adminsetting'' = d # ds"
  shows "resolve_vendor_link (fst (find_one ''adminsetting'' [] s)) ''_id'' = VOid (doc_id d)
       \<and> fst (redirect_vendor ''_id'' req user_id now s)
           \<noteq> Inl (HTTPException 404 ''Link not available yet'')
       \<and> fst (redirect_vendor ''_id'' req user_id now s) = Inl ValidationError"
  using assms
  by (simp add: redirect_vendor_def find_one_all resolve_vendor_link_def dict_get_def to_dict_def
      Click_def Vendor_def)

theorem redirect_vendor_reserved_key_witness:
  "resolve_vendor_link (fst (find_one ''adminsetting'' [] example_store)) ''_id''
     = VOid [0, 0, 0, 0, 0, 0, 0, 0, 0, 0, 0, 9]
   \<and> fst (redirect_vendor ''_id'' example_request None 100 example_store)
       \<noteq> Inl (HTTPException 404 ''Link not available yet'')
   \<and> fst (redirect_vendor ''_id'' example_request None 100 example_store) = Inl ValidationError"
  using redirect_vendor_reserved_key [of example_store example_settings "[]" example_request
      None 100]
  by (simp add: example_store_def example_settings_def)

text \<open>
  C2, as the code has it. For a vendor name among the eight of the schema's \<^verbatim>\<open>Vendor\<close>
  type, for which the first settings document holds a value Python takes for true, the vendor
  redirect answers 302 with exactly that value and appends exactly one click record, target
  "vendor_logo", with the vendor's name; nothing else in the store changes.
\<close>

theorem redirect_vendor_configured:
  assumes "vendor \<in> set Vendor"
    and "colls s ''adminsetting'' = d # ds"
    and "doc_fields d vendor = Some v" and "truthy v"
  shows "redirect_vendor vendor req user_id now s =
     (Inr (RedirectResponse v 302),
      s\<lparr>colls := (colls s)
           (''click'' := colls s ''click'' @
              [Document (new_oid (fresh s))
                 [''product_id'' \<mapsto> VNull, ''affiliate_id'' \<mapsto> VNull,
                  ''user_id'' \<mapsto> opt_val user_id, ''target'' \<mapsto> VStr ''vendor_logo'',
                  ''vendor'' \<mapsto> VStr vendor, ''ip'' \<mapsto> opt_val (client_host req),
                  ''user_agent'' \<mapsto> opt_val (user_agent req),
                  ''created_at'' \<mapsto> VTime now]]),
         fresh := Suc (fresh s), accesses := accesses s + 2\<rparr>)"
  using assms vendor_not_id [OF assms(1)]
  by (simp add: redirect_vendor_def find_one_all resolve_vendor_link_def dict_get_def to_dict_def
      Click_def create_document_def optional_str_opt_val touch_def Let_def)

theorem redirect_vendor_configured_witness:
  "redirect_vendor ''amazon'' example_request (Some ''u42'') 100 example_store =
     (Inr (RedirectResponse (VStr ''https://amazon.example/?tag=se'') 302),
      example_store\<lparr>colls := (colls example_store)
           (''click'' :=
              [Document (new_oid 10)
                 [''product_id'' \<mapsto> VNull, ''affiliate_id'' \<mapsto> VNull,
                  ''user_id'' \<mapsto> VStr ''u42'', ''target'' \<mapsto> VStr ''vendor_logo'',
                  ''vendor'' \<mapsto> VStr ''amazon'', ''ip'' \<mapsto> VStr ''203.0.113.7'',
                  ''user_agent'' \<mapsto> VStr ''curl/8.5'', ''created_at'' \<mapsto> VTime 100]]),
         fresh := 11, accesses := 2\<rparr>)"
  using redirect_vendor_configured [of "''amazon''" example_store example_settings "[]"
      "VStr ''https://amazon.example/?tag=se''" example_request "Some ''u42''" 100]
  by (simp add: Vendor_def example_store_def example_settings_def no_documents_def opt_val_def
      example_request_def)

text \<open>
  C2 as stated fails for a name outside the schema's type. A save over an existing settings
  document stores any key; the redirect for that key finds the non-empty link, and then the
  click record is refused: no redirect and no click.
\<close>

theorem redirect_vendor_any_name_counterexample:
  "colls (snd (save_admin_settings keep_url [''partner'' \<mapsto> VStr ''https://partner.example/'']
                 90 earlier_store)) ''adminsetting'' = [example_settings]
   \<and> doc_fields example_settings ''partner'' = Some (VStr ''https://partner.example/'')
   \<and> redirect_vendor ''partner'' example_request None 100 example_store
     = (Inl ValidationError, example_store\<lparr>accesses := 1\<rparr>)"
  by (simp add: save_admin_settings_def get_admin_settings_def update_one_def apply_update_def
      sat_id dict_get_id
      redirect_vendor_def find_one_all resolve_vendor_link_def dict_get_def to_dict_def
      Click_def Vendor_def example_store_def earlier_store_def example_settings_def
      earlier_settings_def no_documents_def touch_def)

subsection \<open>The deal filter\<close>

lemma sat_hot:
  assumes "scalar (dict_get (doc_fields d) ''hot_deal'')"
    and "scalar (dict_get (doc_fields d) ''hot_deal_expires_at'')"
  shows "sat (hot_deals_predicate now) d = spec_hot_deal now d"
proof -
  have e: "scalar v \<Longrightarrow> elems v = [v]" for v by (cases v) auto
  have l: "later now v = (\<exists>t. v = VTime t \<and> now < t)" for v by (cases v) auto
  show ?thesis
  proof (cases "doc_fields d ''hot_deal''")
    case None
    then show ?thesis
      by (simp add: sat_def hot_deals_predicate_def spec_hot_deal_def to_dict_def dict_get_def)
  next
    case h: (Some v)
    show ?thesis
    proof (cases "doc_fields d ''hot_deal_expires_at''")
      case None
      with h assms show ?thesis
        by (auto simp: sat_def hot_deals_predicate_def spec_hot_deal_def to_dict_def
            dict_get_def e)
    next
      case (Some w)
      with h assms show ?thesis
        by (auto simp: sat_def hot_deals_predicate_def spec_hot_deal_def to_dict_def
            dict_get_def e l)
    qed
  qed
qed

lemma set_insert_sorted: "set (insert_sorted le x xs) = insert x (set xs)"
  by (induction xs) auto

lemma set_sort_docs: "set (sort_docs before key ds) = set ds"
  unfolding sort_docs_def by (induction ds) (simp_all add: set_insert_sorted)

lemma length_insert_sorted: "length (insert_sorted le x xs) = Suc (length xs)"
  by (induction xs) auto

lemma length_sort_docs: "length (sort_docs before key ds) = length ds"
  unfolding sort_docs_def by (induction ds) (simp_all add: length_insert_sorted)

lemma with_str_id_fields:
  "with_str_id = (\<lambda>d. (doc_fields d)(''_id'' \<mapsto> VStr (str_oid (doc_id d))))"
  by (simp add: with_str_id_def to_dict_def fun_eq_iff)

text \<open>
  C7, as the code has it. With \<^verbatim>\<open>hot_only\<close> set and no other filter given, at any time
  \<open>now\<close> and for any stored products that hold no array in \<^verbatim>\<open>hot_deal\<close> or
  \<^verbatim>\<open>hot_deal_expires_at\<close>, the listing has one item for each product the spec's
  predicate selects and no other: \<^verbatim>\<open>hot_deal == true\<close> and the expiry null (or unset) or
  strictly later than \<open>now\<close>. An item is the product's fields with \<^verbatim>\<open>_id\<close> the
  product's id as a string, and the items stand in the store's order. The call costs one read
  and changes nothing. For the spec's products A, B and C the listing is A alone.
\<close>

theorem list_products_hot_only:
  assumes "\<not> given q" and "\<not> given category" and "\<not> given vendor" and "\<not> given affiliate_id"
    and "\<forall>d\<in>set (colls s ''product'').
           scalar (dict_get (doc_fields d) ''hot_deal'')
           \<and> scalar (dict_get (doc_fields d) ''hot_deal_expires_at'')"
  shows "list_products regex before q category vendor True affiliate_id now s
         = (map (\<lambda>d. (doc_fields d)(''_id'' \<mapsto> VStr (str_oid (doc_id d))))
              (sort_docs before ''updated_at'' (filter (spec_hot_deal now) (colls s ''product''))),
            s\<lparr>accesses := Suc (accesses s)\<rparr>)
       \<and> set (fst (list_products regex before q category vendor True affiliate_id now s))
         = (\<lambda>d. (doc_fields d)(''_id'' \<mapsto> VStr (str_oid (doc_id d))))
             ` {d \<in> set (colls s ''product''). spec_hot_deal now d}
       \<and> length (fst (list_products regex before q category vendor True affiliate_id now s))
         = length (filter (spec_hot_deal now) (colls s ''product''))"
proof -
  have "filter (sat (hot_deals_predicate now)) (colls s ''product'')
        = filter (spec_hot_deal now) (colls s ''product'')"
    using assms(5) by (intro filter_cong) (auto simp: sat_hot)
  then have "list_products regex before q category vendor True affiliate_id now s
         = (map (\<lambda>d. (doc_fields d)(''_id'' \<mapsto> VStr (str_oid (doc_id d))))
              (sort_docs before ''updated_at'' (filter (spec_hot_deal now) (colls s ''product''))),
            s\<lparr>accesses := Suc (accesses s)\<rparr>)"
    using assms(1-4)
    by (simp add: list_products_def find_sort_def touch_def with_str_id_fields)
  then show ?thesis by (simp add: set_sort_docs length_sort_docs)
qed

theorem list_products_hot_only_witness:
  "list_products no_match any_order None None (Some []) True None 10000 example_store
   = ([[''affiliate_id'' \<mapsto> VStr ''u1'', ''affiliate_link'' \<mapsto> VStr ''https://shop.example/a'',
        ''hot_deal'' \<mapsto> VBool True, ''hot_deal_expires_at'' \<mapsto> VNull,
        ''clicks'' \<mapsto> VInt 5, ''orders'' \<mapsto> VInt 2,
        ''_id'' \<mapsto> VStr ''000000000000000000000001'']],
      example_store\<lparr>accesses := 1\<rparr>)"
  using list_products_hot_only [of None None "Some []" None example_store no_match any_order
      10000]
  by (simp add: given_def example_store_def no_documents_def product_A_def product_B_def
      product_C_def dict_get_def spec_hot_deal_def sort_docs_def str_oid_def hexdigit_def)

text \<open>
  C7 as stated fails for a stored product with an array in \<^verbatim>\<open>hot_deal\<close>, which
  \<^verbatim>\<open>update_product\<close> stores like any other value: the store's equality holds of an array
  that has the value among its elements. Product C with \<^verbatim>\<open>hot_deal = [false, true]\<close>
  is listed beside A, though its \<^verbatim>\<open>hot_deal\<close> is not \<^verbatim>\<open>true\<close>.
\<close>

theorem list_products_hot_only_counterexample:
  "map (\<lambda>d. doc_fields d ''hot_deal'') (colls array_flag_store ''product'')
     = [Some (VBool True), Some (VBool True), Some (VList [VBool False, VBool True])]
   \<and> map (\<lambda>item. item ''_id'')
       (fst (list_products no_match any_order None None None True None 10000 array_flag_store))
     = [Some (VStr ''000000000000000000000001''), Some (VStr ''000000000000000000000003'')]
   \<and> filter (spec_hot_deal 10000) (colls array_flag_store ''product'') = [product_A]"
  by (simp add: array_flag_store_def list_products_def find_sort_def sort_docs_def
      hot_deals_predicate_def sat_def with_str_id_def given_def any_order_def
      spec_hot_deal_def str_oid_def hexdigit_def oid_3
      update_product_def get_product_def oid_def update_one_def apply_update_def
      sat_id find_one_def Let_def dict_get_def to_dict_def
      example_store_def product_A_def product_B_def product_C_def no_documents_def touch_def)

subsection \<open>What a call leaves alone\<close>














subsection \<open>The settings document\<close>









subsection \<open>The counters of a product\<close>




















end
